theory Spec2Isabelle
  imports Main
begin

section \<open>Values of the JavaScript runtime\<close>

text \<open>
  The server (\<^verbatim>\<open>server.js\<close>) receives JSON bodies and query strings and answers with
  JSON. A JavaScript value is one of the constructors below. Numbers are the integers among
  JavaScript's numbers: the handlers never calculate with a number, they read only whether it
  is zero, its \<^verbatim>\<open>typeof\<close> and its text; \<open>JNum n\<close> is the number that JavaScript
  reads from the integer literal \<open>n\<close>. An object is the list of its own properties in the
  order of \<^verbatim>\<open>Object.keys\<close>. A text is the list of the bytes of its UTF-8 encoding.
\<close>

datatype jsval =
    JUndefined
  | JNull
  | JBool bool
  | JNum int
  | JStr string
  | JArr "jsval list"
  | JObj "(string \<times> jsval) list"

text \<open>Truthiness, as \<^verbatim>\<open>!x\<close> and \<^verbatim>\<open>x || y\<close> read it.\<close>

fun truthy :: "jsval \<Rightarrow> bool" where
  "truthy JUndefined = False"
| "truthy JNull = False"
| "truthy (JBool b) = b"
| "truthy (JNum n) = (n \<noteq> 0)"
| "truthy (JStr s) = (s \<noteq> [])"
| "truthy (JArr xs) = True"
| "truthy (JObj ps) = True"

text \<open>\<^verbatim>\<open>a || b\<close>\<close>

definition js_or :: "jsval \<Rightarrow> jsval \<Rightarrow> jsval" where
  "js_or a b = (if truthy a then a else b)"

text \<open>\<^verbatim>\<open>typeof v\<close>\<close>

fun typeof :: "jsval \<Rightarrow> string" where
  "typeof JUndefined = ''undefined''"
| "typeof JNull = ''object''"
| "typeof (JBool b) = ''boolean''"
| "typeof (JNum n) = ''number''"
| "typeof (JStr s) = ''string''"
| "typeof (JArr xs) = ''object''"
| "typeof (JObj ps) = ''object''"

text \<open>
  Reading a property of an object, \<^verbatim>\<open>o[name]\<close> or a destructuring
  \<^verbatim>\<open>const { name } = o\<close>: \<^verbatim>\<open>undefined\<close> when the object has no such property.
\<close>

definition get_prop :: "(string \<times> jsval) list \<Rightarrow> string \<Rightarrow> jsval" where
  "get_prop ps name = (case map_of ps name of None \<Rightarrow> JUndefined | Some v \<Rightarrow> v)"

subsection \<open>Numbers\<close>

text \<open>
  The numbers that \<^verbatim>\<open>parseInt\<close> returns: \<^verbatim>\<open>NaN\<close>, the two infinities, and the
  doubles whose value is an integer (minus zero is zero here: it is falsy and prints as
  \<^verbatim>\<open>0\<close> like zero).
\<close>

datatype number = NaN | Infinity | NegInfinity | Finite int

function bit_length :: "nat \<Rightarrow> nat" where
  "bit_length n = (if n = 0 then 0 else Suc (bit_length (n div 2)))"
  by pat_completeness auto
termination
  by (relation "measure (\<lambda>n. n)") auto

declare bit_length.simps [simp del]

text \<open>
  The double nearest to a natural number: 53 significant bits are kept, the rest is rounded
  to nearest, a tie to the even neighbour. \<open>None\<close> when the rounded value is
  \<open>2\<^sup>1\<^sup>0\<^sup>2\<^sup>4\<close> or more, beyond every double, which JavaScript reads as infinity.
\<close>

definition to_double :: "nat \<Rightarrow> nat option" where
  "to_double n =
     (if bit_length n \<le> 53 then Some n
      else (let e = bit_length n - 53;
                q = n div 2 ^ e;
                r = n mod 2 ^ e;
                half = 2 ^ (e - 1);
                q' = (if half < r \<or> (r = half \<and> odd q) then q + 1 else q);
                m = q' * 2 ^ e
            in if 1024 < bit_length m then None else Some m))"

definition number_of_int :: "int \<Rightarrow> number" where
  "number_of_int i =
     (case to_double (nat \<bar>i\<bar>) of
        None \<Rightarrow> if i < 0 then NegInfinity else Infinity
      | Some m \<Rightarrow> Finite (if i < 0 then - int m else int m))"

subsection \<open>Numbers as text\<close>

definition digit_char :: "nat \<Rightarrow> char" where
  "digit_char d = ''0123456789'' ! d"

function show_nat :: "nat \<Rightarrow> string" where
  "show_nat n = (if n < 10 then [digit_char n] else show_nat (n div 10) @ [digit_char (n mod 10)])"
  by pat_completeness auto
termination
  by (relation "measure (\<lambda>n. n)") auto

declare show_nat.simps [simp del]

text \<open>
  \<^verbatim>\<open>Number.prototype.toString\<close>, which a template literal \<^verbatim>\<open>${n}\<close> applies. It
  prints the decimal with the fewest significant digits that is read back as the same
  double, and among those the nearest (the even one on a tie). For a double \<open>x\<close> of
  \<open>n\<close> decimal digits, \<open>shortest_decimal x n k\<close> looks for it with \<open>k\<close> significant
  digits, then with more: the two candidates are the multiples of \<open>10\<^sup>n\<^sup>-\<^sup>k\<close> around
  \<open>x\<close>.
\<close>

function shortest_decimal :: "nat \<Rightarrow> nat \<Rightarrow> nat \<Rightarrow> nat" where
  "shortest_decimal x n k =
     (if n \<le> k then x
      else (let p = 10 ^ (n - k);
                lo = (x div p) * p;
                hi = lo + p;
                lo_ok = (to_double lo = Some x);
                hi_ok = (to_double hi = Some x)
            in if lo_ok \<and> hi_ok
               then (if x - lo < hi - x then lo
                     else if hi - x < x - lo then hi
                     else if even (x div p) then lo else hi)
               else if lo_ok then lo
               else if hi_ok then hi
               else shortest_decimal x n (Suc k)))"
  by pat_completeness auto
termination
  by (relation "measure (\<lambda>(x, n, k). n - k)") auto

declare shortest_decimal.simps [simp del]

text \<open>
  Up to 21 digits the decimal is printed in full; a longer one is printed as its significant
  digits, a point after the first, and the exponent.
\<close>

definition nat_text :: "nat \<Rightarrow> string" where
  "nat_text x =
     (let ds = show_nat (shortest_decimal x (length (show_nat x)) 1) in
      if length ds \<le> 21 then ds
      else (let sig = rev (dropWhile (\<lambda>c. c = CHR ''0'') (rev ds));
                mantissa = (case sig of [] \<Rightarrow> [] | [d] \<Rightarrow> [d] | d # more \<Rightarrow> d # CHR ''.'' # more)
            in mantissa @ ''e+'' @ show_nat (length ds - 1)))"

definition number_text :: "number \<Rightarrow> string" where
  "number_text x =
     (case x of
        NaN \<Rightarrow> ''NaN''
      | Infinity \<Rightarrow> ''Infinity''
      | NegInfinity \<Rightarrow> ''-Infinity''
      | Finite i \<Rightarrow> if i < 0 then CHR ''-'' # nat_text (nat (- i)) else nat_text (nat i))"

text \<open>\<^verbatim>\<open>xs.join(sep)\<close> on texts.\<close>

fun join :: "string \<Rightarrow> string list \<Rightarrow> string" where
  "join sep [] = []"
| "join sep [x] = x"
| "join sep (x # y # ys) = x @ sep @ join sep (y # ys)"

text \<open>
  \<^verbatim>\<open>String(v)\<close>, the conversion that \<^verbatim>\<open>parseInt\<close> and template literals apply to
  their argument. In an array, \<^verbatim>\<open>null\<close> and \<^verbatim>\<open>undefined\<close> print as the empty text.
\<close>

fun to_string :: "jsval \<Rightarrow> string" where
  "to_string JUndefined = ''undefined''"
| "to_string JNull = ''null''"
| "to_string (JBool b) = (if b then ''true'' else ''false'')"
| "to_string (JNum n) = number_text (number_of_int n)"
| "to_string (JStr s) = s"
| "to_string (JArr xs) =
     join '','' (map (\<lambda>x. if x = JUndefined \<or> x = JNull then [] else to_string x) xs)"
| "to_string (JObj ps) = ''[object Object]''"

subsection \<open>\<^verbatim>\<open>parseInt\<close>\<close>

text \<open>
  \<^verbatim>\<open>parseInt(text)\<close> with no radix: leading white space is skipped, then an optional
  sign, then an optional \<^verbatim>\<open>0x\<close> or \<^verbatim>\<open>0X\<close> that selects radix 16, then the longest
  run of digits of the radix; whatever follows is ignored. With no digit the result is
  \<^verbatim>\<open>NaN\<close>. Otherwise it is the double nearest to the integer read.

  White space is what JavaScript trims: tab, line feed, vertical tab, form feed, carriage
  return, space, and U+00A0, U+1680, U+2000 to U+200A, U+2028, U+2029, U+202F, U+205F,
  U+3000 and U+FEFF, here in UTF-8.
\<close>

definition white_space :: "string list" where
  "white_space =
     [[CHR 0x09], [CHR 0x0A], [CHR 0x0B], [CHR 0x0C], [CHR 0x0D], [CHR 0x20],
      [CHR 0xC2, CHR 0xA0],
      [CHR 0xE1, CHR 0x9A, CHR 0x80],
      [CHR 0xE2, CHR 0x80, CHR 0x80], [CHR 0xE2, CHR 0x80, CHR 0x81],
      [CHR 0xE2, CHR 0x80, CHR 0x82], [CHR 0xE2, CHR 0x80, CHR 0x83],
      [CHR 0xE2, CHR 0x80, CHR 0x84], [CHR 0xE2, CHR 0x80, CHR 0x85],
      [CHR 0xE2, CHR 0x80, CHR 0x86], [CHR 0xE2, CHR 0x80, CHR 0x87],
      [CHR 0xE2, CHR 0x80, CHR 0x88], [CHR 0xE2, CHR 0x80, CHR 0x89],
      [CHR 0xE2, CHR 0x80, CHR 0x8A],
      [CHR 0xE2, CHR 0x80, CHR 0xA8], [CHR 0xE2, CHR 0x80, CHR 0xA9],
      [CHR 0xE2, CHR 0x80, CHR 0xAF],
      [CHR 0xE2, CHR 0x81, CHR 0x9F],
      [CHR 0xE3, CHR 0x80, CHR 0x80],
      [CHR 0xEF, CHR 0xBB, CHR 0xBF]]"

text \<open>The number of bytes of the white space character a text starts with, 0 when it
  starts with none.\<close>

definition leading_space :: "string \<Rightarrow> nat" where
  "leading_space s =
     (case find (\<lambda>w. take (length w) s = w) white_space of None \<Rightarrow> 0 | Some w \<Rightarrow> length w)"

function strip_space :: "string \<Rightarrow> string" where
  "strip_space s = (if leading_space s = 0 then s else strip_space (drop (leading_space s) s))"
  by pat_completeness auto
termination
proof (relation "measure length")
  show "wf (measure length)" by simp
next
  fix s :: string
  assume "leading_space s \<noteq> 0"
  then have "s \<noteq> []" by (auto simp: leading_space_def white_space_def)
  with \<open>leading_space s \<noteq> 0\<close> show "(drop (leading_space s) s, s) \<in> measure length"
    by simp
qed

declare strip_space.simps [simp del]

definition digit_value :: "char \<Rightarrow> nat option" where
  "digit_value c =
     (let k = of_char c :: nat in
      if 48 \<le> k \<and> k \<le> 57 then Some (k - 48)
      else if 97 \<le> k \<and> k \<le> 122 then Some (k - 87)
      else if 65 \<le> k \<and> k \<le> 90 then Some (k - 55)
      else None)"

definition is_digit :: "nat \<Rightarrow> char \<Rightarrow> bool" where
  "is_digit radix c = (case digit_value c of None \<Rightarrow> False | Some d \<Rightarrow> d < radix)"

definition digits_value :: "nat \<Rightarrow> string \<Rightarrow> nat" where
  "digits_value radix z =
     foldl (\<lambda>acc c. acc * radix + (case digit_value c of None \<Rightarrow> 0 | Some d \<Rightarrow> d)) 0 z"

definition strip_sign :: "string \<Rightarrow> int \<times> string" where
  "strip_sign s =
     (case s of
        [] \<Rightarrow> (1, [])
      | c # r \<Rightarrow> if c = CHR ''-'' then (- 1, r) else if c = CHR ''+'' then (1, r) else (1, s))"

definition strip_prefix :: "string \<Rightarrow> nat \<times> string" where
  "strip_prefix s =
     (case s of
        a # b # r \<Rightarrow>
          if a = CHR ''0'' \<and> (b = CHR ''x'' \<or> b = CHR ''X'') then (16, r) else (10, s)
      | _ \<Rightarrow> (10, s))"

definition parseInt :: "string \<Rightarrow> number" where
  "parseInt s =
     (let (sign, s2) = strip_sign (strip_space s);
          (radix, s3) = strip_prefix s2;
          z = takeWhile (is_digit radix) s3
      in if z = [] then NaN
         else (case to_double (digits_value radix z) of
                 None \<Rightarrow> if sign < 0 then NegInfinity else Infinity
               | Some m \<Rightarrow> Finite (sign * int m)))"

section \<open>The store and the warehouse\<close>

text \<open>
  The client handle built by \<^verbatim>\<open>new BigQuery({projectId, credentials: {client_email,
  private_key}})\<close> is the record of the options it was built from. The constructor only
  stores its options and calls nothing upstream.
\<close>

record client =
  cl_projectId :: jsval
  cl_client_email :: jsval
  cl_private_key :: string

text \<open>\<^verbatim>\<open>bigQueryCredentials = { projectId, clientEmail }\<close>\<close>

record credentials =
  cr_projectId :: jsval
  cr_clientEmail :: jsval

text \<open>
  The two module variables \<^verbatim>\<open>bigQueryClient\<close> and \<^verbatim>\<open>bigQueryCredentials\<close>;
  \<open>None\<close> is \<^verbatim>\<open>null\<close>.
\<close>

record store =
  bigQueryClient :: "client option"
  bigQueryCredentials :: "credentials option"

definition empty_store :: store where
  "empty_store = \<lparr>bigQueryClient = None, bigQueryCredentials = None\<rparr>"

text \<open>What the SDK hands back: a dataset or table with its \<^verbatim>\<open>id\<close> and one field of its
  metadata (\<^verbatim>\<open>undefined\<close> when the metadata or the field is absent), the metadata of a
  table, and rows as objects.\<close>

record dataset =
  ds_id :: jsval
  ds_location :: jsval

record table_ref =
  tb_id :: jsval
  tb_type :: jsval

record metadata =
  md_schema_fields :: jsval
  md_numRows :: jsval

type_synonym row = "(string \<times> jsval) list"

text \<open>
  The warehouse is outside the program. Each of its operations either throws an error with a
  message (\<open>Inl\<close>) or returns (\<open>Inr\<close>). The text of a query is whatever value the
  handler passes on.
\<close>

record warehouse =
  getDatasets :: "client \<Rightarrow> string + dataset list"
  getTables :: "client \<Rightarrow> string \<Rightarrow> string + table_ref list"
  getMetadata :: "client \<Rightarrow> string \<Rightarrow> string \<Rightarrow> string + metadata"
  query :: "client \<Rightarrow> jsval \<Rightarrow> string + row list"

text \<open>The upstream calls a handler makes, in order, so that "no call" can be stated.\<close>

datatype call =
    GetDatasets client
  | GetTables client string
  | GetMetadata client string string
  | Query client jsval

record response =
  code :: nat
  body :: jsval

text \<open>\<^verbatim>\<open>res.json(v)\<close> and \<^verbatim>\<open>res.status(n).json({ error: msg })\<close>\<close>

definition ok_json :: "jsval \<Rightarrow> response" where
  "ok_json v = \<lparr>code = 200, body = v\<rparr>"

definition error_json :: "nat \<Rightarrow> string \<Rightarrow> response" where
  "error_json n msg = \<lparr>code = n, body = JObj [(''error'', JStr msg)]\<rparr>"

definition not_connected :: response where
  "not_connected = error_json 401 ''Not connected to BigQuery''"

section \<open>The request handlers\<close>

text \<open>
  A handler run to completion maps the store to a response, the store afterwards and the
  upstream calls made.
\<close>

type_synonym outcome = "response \<times> store \<times> call list"

abbreviation response_of :: "outcome \<Rightarrow> response" where
  "response_of out \<equiv> fst out"

abbreviation store_after :: "outcome \<Rightarrow> store" where
  "store_after out \<equiv> fst (snd out)"

abbreviation calls_of :: "outcome \<Rightarrow> call list" where
  "calls_of out \<equiv> snd (snd out)"

subsection \<open>\<^verbatim>\<open>GET /api/bigquery/status\<close>\<close>

definition status :: "store \<Rightarrow> outcome" where
  "status st =
     (ok_json (JObj
        [(''connected'', JBool (bigQueryClient st \<noteq> None)),
         (''projectId'',
            js_or (case bigQueryCredentials st of None \<Rightarrow> JUndefined | Some cr \<Rightarrow> cr_projectId cr)
              JNull)]),
      st, [])"

subsection \<open>\<^verbatim>\<open>POST /api/bigquery/connect\<close>\<close>

text \<open>\<^verbatim>\<open>privateKey.replace(/\\n/g, '\n')\<close>: every backslash followed by \<open>n\<close> becomes a
  newline.\<close>

fun formatKey :: "string \<Rightarrow> string" where
  "formatKey (a # b # cs) =
     (if a = CHR 0x5C \<and> b = CHR ''n'' then CHR 0x0A # formatKey cs else a # formatKey (b # cs))"
| "formatKey cs = cs"

text \<open>
  The handler is asynchronous: it runs up to \<^verbatim>\<open>await bigQueryClient.getDatasets()\<close>,
  is suspended there, and is resumed with the result of the call. \<open>connect_begin\<close> is the
  part before the \<^verbatim>\<open>await\<close>. It answers at once (\<open>Responded\<close>) when a field is falsy,
  or when the private key is not a text, so that \<^verbatim>\<open>privateKey.replace\<close> throws a
  \<^verbatim>\<open>TypeError\<close> and the \<^verbatim>\<open>catch\<close> block runs. Otherwise it has already assigned
  the new client to \<^verbatim>\<open>bigQueryClient\<close> and called \<^verbatim>\<open>getDatasets\<close> on it
  (\<open>Awaiting\<close>: the store so far, the client called, and the \<^verbatim>\<open>projectId\<close> and
  \<^verbatim>\<open>clientEmail\<close> the continuation holds).
\<close>

datatype connect_phase =
    Responded response store
  | Awaiting store client jsval jsval

definition connect_begin :: "store \<Rightarrow> (string \<times> jsval) list \<Rightarrow> connect_phase" where
  "connect_begin st req_body =
     (let projectId = get_prop req_body ''projectId'';
          clientEmail = get_prop req_body ''clientEmail'';
          privateKey = get_prop req_body ''privateKey''
      in if \<not> truthy projectId \<or> \<not> truthy clientEmail \<or> \<not> truthy privateKey
         then Responded (error_json 400 ''Missing required credentials'') st
         else (case privateKey of
                 JStr k \<Rightarrow>
                   (let c = \<lparr>cl_projectId = projectId, cl_client_email = clientEmail,
                              cl_private_key = formatKey k\<rparr>
                    in Awaiting (st\<lparr>bigQueryClient := Some c\<rparr>) c projectId clientEmail)
               | _ \<Rightarrow>
                   Responded
                     (error_json 401
                        (''Authentication failed: '' @ ''privateKey.replace is not a function''))
                     empty_store))"

text \<open>
  \<open>connect_resume\<close> is the part after the \<^verbatim>\<open>await\<close>, run on the store as it is
  then: on success it assigns the credentials, on an error the \<^verbatim>\<open>catch\<close> block
  clears both variables.
\<close>

definition connect_resume ::
  "store \<Rightarrow> jsval \<Rightarrow> jsval \<Rightarrow> string + dataset list \<Rightarrow> response \<times> store" where
  "connect_resume st projectId clientEmail result =
     (case result of
        Inr dss \<Rightarrow>
          (ok_json (JObj [(''success'', JBool True), (''message'', JStr ''Connected to BigQuery'')]),
           st\<lparr>bigQueryCredentials :=
                 Some \<lparr>cr_projectId = projectId, cr_clientEmail = clientEmail\<rparr>\<rparr>)
      | Inl msg \<Rightarrow> (error_json 401 (''Authentication failed: '' @ msg), empty_store))"

text \<open>The handler run to completion, with nothing else running during the \<^verbatim>\<open>await\<close>.\<close>

definition connect :: "warehouse \<Rightarrow> store \<Rightarrow> (string \<times> jsval) list \<Rightarrow> outcome" where
  "connect wh st req_body =
     (case connect_begin st req_body of
        Responded r st' \<Rightarrow> (r, st', [])
      | Awaiting st' c projectId clientEmail \<Rightarrow>
          (let (r, st'') = connect_resume st' projectId clientEmail (getDatasets wh c)
           in (r, st'', [GetDatasets c])))"

subsection \<open>\<^verbatim>\<open>POST /api/bigquery/disconnect\<close>\<close>

definition disconnect :: "store \<Rightarrow> outcome" where
  "disconnect st = (ok_json (JObj [(''success'', JBool True)]), empty_store, [])"

subsection \<open>\<^verbatim>\<open>GET /api/bigquery/datasets\<close> and \<^verbatim>\<open>GET /api/bigquery/tables/:datasetId\<close>\<close>

definition dataset_json :: "dataset \<Rightarrow> jsval" where
  "dataset_json ds = JObj [(''id'', ds_id ds), (''location'', ds_location ds)]"

definition list_datasets :: "warehouse \<Rightarrow> store \<Rightarrow> outcome" where
  "list_datasets wh st =
     (case bigQueryClient st of
        None \<Rightarrow> (not_connected, st, [])
      | Some c \<Rightarrow>
          (case getDatasets wh c of
             Inr dss \<Rightarrow>
               (ok_json (JObj [(''datasets'', JArr (map dataset_json dss))]), st, [GetDatasets c])
           | Inl msg \<Rightarrow> (error_json 500 msg, st, [GetDatasets c])))"

definition table_json :: "table_ref \<Rightarrow> jsval" where
  "table_json t = JObj [(''id'', tb_id t), (''type'', tb_type t)]"

definition list_tables :: "warehouse \<Rightarrow> store \<Rightarrow> string \<Rightarrow> outcome" where
  "list_tables wh st datasetId =
     (case bigQueryClient st of
        None \<Rightarrow> (not_connected, st, [])
      | Some c \<Rightarrow>
          (case getTables wh c datasetId of
             Inr ts \<Rightarrow>
               (ok_json (JObj [(''tables'', JArr (map table_json ts))]), st,
                [GetTables c datasetId])
           | Inl msg \<Rightarrow> (error_json 500 msg, st, [GetTables c datasetId])))"

subsection \<open>\<^verbatim>\<open>GET /api/bigquery/data/:datasetId/:tableId\<close>\<close>

text \<open>\<^verbatim>\<open>parseInt(v) || d\<close>: the default replaces \<^verbatim>\<open>NaN\<close> and zero, the falsy
  numbers.\<close>

definition parse_or :: "jsval \<Rightarrow> number \<Rightarrow> number" where
  "parse_or v d =
     (let x = parseInt (to_string v) in if x = NaN \<or> x = Finite 0 then d else x)"

text \<open>\<^verbatim>\<open>const limit = parseInt(req.query.limit) || 100\<close> and
  \<^verbatim>\<open>const offset = parseInt(req.query.offset) || 0\<close>, on the parsed query string.\<close>

definition page_limit :: "(string \<times> jsval) list \<Rightarrow> number" where
  "page_limit req_query = parse_or (get_prop req_query ''limit'') (Finite 100)"

definition page_offset :: "(string \<times> jsval) list \<Rightarrow> number" where
  "page_offset req_query = parse_or (get_prop req_query ''offset'') (Finite 0)"

text \<open>The text of the generated query.\<close>

definition page_sql :: "jsval \<Rightarrow> string \<Rightarrow> string \<Rightarrow> number \<Rightarrow> number \<Rightarrow> string" where
  "page_sql projectId datasetId tableId limit offset =
     ''SELECT * FROM `'' @ to_string projectId @ ''.'' @ datasetId @ ''.'' @ tableId
       @ ''` LIMIT '' @ number_text limit @ '' OFFSET '' @ number_text offset"

text \<open>
  This handler too is suspended, at \<^verbatim>\<open>await table.getMetadata()\<close>. Before it, the guard
  reads \<^verbatim>\<open>bigQueryClient\<close>, the two numbers are parsed and the metadata call is made on
  the client of that moment.
\<close>

datatype page_phase =
    PageResponded response
  | PageAwaiting client number number

definition page_begin :: "store \<Rightarrow> (string \<times> jsval) list \<Rightarrow> page_phase" where
  "page_begin st req_query =
     (case bigQueryClient st of
        None \<Rightarrow> PageResponded not_connected
      | Some c \<Rightarrow> PageAwaiting c (page_limit req_query) (page_offset req_query))"

text \<open>
  After it, the handler reads \<^verbatim>\<open>bigQueryCredentials.projectId\<close> and
  \<^verbatim>\<open>bigQueryClient.query\<close> from the store as it is then; on \<^verbatim>\<open>null\<close> either read
  throws a \<^verbatim>\<open>TypeError\<close>, which the \<^verbatim>\<open>catch\<close> block reports with status 500. The
  second \<^verbatim>\<open>await\<close> is followed by no read of the store.
\<close>

definition page_resume ::
  "warehouse \<Rightarrow> store \<Rightarrow> string \<Rightarrow> string \<Rightarrow> number \<Rightarrow> number \<Rightarrow> string + metadata
     \<Rightarrow> response \<times> call list" where
  "page_resume wh st datasetId tableId limit offset result =
     (case result of
        Inl msg \<Rightarrow> (error_json 500 msg, [])
      | Inr md \<Rightarrow>
          (let schema = js_or (md_schema_fields md) (JArr []) in
           case bigQueryCredentials st of
             None \<Rightarrow> (error_json 500 ''Cannot read properties of null (reading 'projectId')'', [])
           | Some cr \<Rightarrow>
               (let sql = page_sql (cr_projectId cr) datasetId tableId limit offset in
                case bigQueryClient st of
                  None \<Rightarrow> (error_json 500 ''Cannot read properties of null (reading 'query')'', [])
                | Some c \<Rightarrow>
                    (case query wh c (JStr sql) of
                       Inl msg \<Rightarrow> (error_json 500 msg, [Query c (JStr sql)])
                     | Inr rows \<Rightarrow>
                         (ok_json (JObj [(''rows'', JArr (map JObj rows)), (''schema'', schema),
                                        (''total'', md_numRows md)]),
                          [Query c (JStr sql)])))))"

definition get_table_data ::
  "warehouse \<Rightarrow> store \<Rightarrow> string \<Rightarrow> string \<Rightarrow> (string \<times> jsval) list \<Rightarrow> outcome" where
  "get_table_data wh st datasetId tableId req_query =
     (case page_begin st req_query of
        PageResponded r \<Rightarrow> (r, st, [])
      | PageAwaiting c limit offset \<Rightarrow>
          (let (r, cs) = page_resume wh st datasetId tableId limit offset
                           (getMetadata wh c datasetId tableId)
           in (r, st, GetMetadata c datasetId tableId # cs)))"

subsection \<open>\<^verbatim>\<open>POST /api/bigquery/query\<close>\<close>

text \<open>\<^verbatim>\<open>Object.keys(rows[0]).map(name => ({ name, type: typeof rows[0][name] }))\<close>, or the
  empty array when there is no row.\<close>

definition schema_entry :: "row \<Rightarrow> string \<Rightarrow> jsval" where
  "schema_entry r name = JObj [(''name'', JStr name), (''type'', JStr (typeof (get_prop r name)))]"

definition infer_schema :: "row list \<Rightarrow> jsval list" where
  "infer_schema rows =
     (if length rows > 0 then map (schema_entry (rows ! 0)) (map fst (rows ! 0)) else [])"

definition run_query :: "warehouse \<Rightarrow> store \<Rightarrow> (string \<times> jsval) list \<Rightarrow> outcome" where
  "run_query wh st req_body =
     (case bigQueryClient st of
        None \<Rightarrow> (not_connected, st, [])
      | Some c \<Rightarrow>
          (let q = get_prop req_body ''query'' in
           if \<not> truthy q then (error_json 400 ''Query is required'', st, [])
           else (case query wh c q of
                   Inr rows \<Rightarrow>
                     (ok_json (JObj [(''rows'', JArr (map JObj rows)),
                                    (''schema'', JArr (infer_schema rows))]),
                      st, [Query c q])
                 | Inl msg \<Rightarrow> (error_json 500 msg, st, [Query c q]))))"

subsection \<open>Requests, one after the other\<close>

datatype request =
    Status
  | Connect "(string \<times> jsval) list"
  | Disconnect
  | ListDatasets
  | ListTables string
  | GetTableData string string "(string \<times> jsval) list"
  | RunQuery "(string \<times> jsval) list"

fun handle :: "warehouse \<Rightarrow> store \<Rightarrow> request \<Rightarrow> outcome" where
  "handle wh st Status = status st"
| "handle wh st (Connect req_body) = connect wh st req_body"
| "handle wh st Disconnect = disconnect st"
| "handle wh st ListDatasets = list_datasets wh st"
| "handle wh st (ListTables datasetId) = list_tables wh st datasetId"
| "handle wh st (GetTableData datasetId tableId req_query) =
     get_table_data wh st datasetId tableId req_query"
| "handle wh st (RunQuery req_body) = run_query wh st req_body"

text \<open>The four operations guarded by \<^verbatim>\<open>if (!bigQueryClient)\<close>.\<close>

fun requires_connection :: "request \<Rightarrow> bool" where
  "requires_connection ListDatasets = True"
| "requires_connection (ListTables datasetId) = True"
| "requires_connection (GetTableData datasetId tableId req_query) = True"
| "requires_connection (RunQuery req_body) = True"
| "requires_connection r = False"

text \<open>
  The store after a sequence of requests, each handled to completion before the next, each
  with the warehouse as it behaves at that time. The store is empty when the process starts.
\<close>

fun run :: "store \<Rightarrow> (warehouse \<times> request) list \<Rightarrow> store" where
  "run st [] = st"
| "run st ((wh, r) # rs) = run (store_after (handle wh st r)) rs"

text \<open>Both variables are set, or both are \<^verbatim>\<open>null\<close>.\<close>

definition consistent :: "store \<Rightarrow> bool" where
  "consistent st = ((bigQueryClient st = None) = (bigQueryCredentials st = None))"

subsection \<open>Requests that overlap\<close>

text \<open>
  Node runs one handler at a time, but only up to its next \<^verbatim>\<open>await\<close>: while a handler
  waits for the warehouse, requests that arrive are handled on the same two variables. A
  suspended handler is a task: the values its continuation holds and the result its call
  will deliver. The continuations that read or write the store are those of connect and of
  get table data; the other asynchronous handlers only send their response after their
  \<^verbatim>\<open>await\<close>, so they are run in one turn here.
\<close>

datatype task =
    ConnectTask jsval jsval "string + dataset list"
  | PageTask string string number number "string + metadata"

record server =
  sv_store :: store
  sv_tasks :: "task list"

definition start :: server where
  "start = \<lparr>sv_store = empty_store, sv_tasks = []\<rparr>"

datatype event =
    Arrive request
  | Resume nat

text \<open>A request arrives: its handler runs to its \<^verbatim>\<open>await\<close> or to its response.\<close>

definition arrive :: "warehouse \<Rightarrow> server \<Rightarrow> request \<Rightarrow> response list \<times> server" where
  "arrive wh sv r =
     (case r of
        Connect req_body \<Rightarrow>
          (case connect_begin (sv_store sv) req_body of
             Responded resp st' \<Rightarrow> ([resp], sv\<lparr>sv_store := st'\<rparr>)
           | Awaiting st' c projectId clientEmail \<Rightarrow>
               ([], \<lparr>sv_store = st',
                     sv_tasks = sv_tasks sv @ [ConnectTask projectId clientEmail (getDatasets wh c)]\<rparr>))
      | GetTableData datasetId tableId req_query \<Rightarrow>
          (case page_begin (sv_store sv) req_query of
             PageResponded resp \<Rightarrow> ([resp], sv)
           | PageAwaiting c limit offset \<Rightarrow>
               ([], sv\<lparr>sv_tasks := sv_tasks sv @
                         [PageTask datasetId tableId limit offset
                            (getMetadata wh c datasetId tableId)]\<rparr>))
      | _ \<Rightarrow>
          (let out = handle wh (sv_store sv) r
           in ([response_of out], sv\<lparr>sv_store := store_after out\<rparr>)))"

text \<open>The \<open>k\<close>-th suspended handler is resumed on the store as it is now.\<close>

definition resume :: "warehouse \<Rightarrow> server \<Rightarrow> nat \<Rightarrow> response list \<times> server" where
  "resume wh sv k =
     (if k < length (sv_tasks sv)
      then (let rest = take k (sv_tasks sv) @ drop (Suc k) (sv_tasks sv) in
            case sv_tasks sv ! k of
              ConnectTask projectId clientEmail result \<Rightarrow>
                (let (resp, st') = connect_resume (sv_store sv) projectId clientEmail result
                 in ([resp], \<lparr>sv_store = st', sv_tasks = rest\<rparr>))
            | PageTask datasetId tableId limit offset result \<Rightarrow>
                ([fst (page_resume wh (sv_store sv) datasetId tableId limit offset result)],
                 sv\<lparr>sv_tasks := rest\<rparr>))
      else ([], sv))"

text \<open>The responses sent, in order, and the server afterwards.\<close>

fun event_loop :: "warehouse \<Rightarrow> server \<Rightarrow> event list \<Rightarrow> response list \<times> server" where
  "event_loop wh sv [] = ([], sv)"
| "event_loop wh sv (e # es) =
     (let (rs, sv') = (case e of Arrive r \<Rightarrow> arrive wh sv r | Resume k \<Rightarrow> resume wh sv k);
          (rs', sv'') = event_loop wh sv' es
      in (rs @ rs', sv''))"

section \<open>What the specification calls numeric\<close>

text \<open>
  The specification says that non-numeric values of \<^verbatim>\<open>limit\<close> and \<^verbatim>\<open>offset\<close> fall
  back to the defaults. \<open>numeric_text\<close> follows those words, not the code: a text is
  numeric when the whole of it is a decimal number, that is an optional sign, one or more
  digits and optionally a point with one or more digits.
\<close>

definition is_decimal :: "char \<Rightarrow> bool" where
  "is_decimal c = is_digit 10 c"

definition numeric_text :: "string \<Rightarrow> bool" where
  "numeric_text s =
     (let s1 = (case s of [] \<Rightarrow> [] | c # r \<Rightarrow> if c = CHR ''-'' \<or> c = CHR ''+'' then r else s);
          whole = takeWhile is_decimal s1;
          rest = dropWhile is_decimal s1
      in whole \<noteq> [] \<and>
         (case rest of
            [] \<Rightarrow> True
          | c # frac \<Rightarrow> c = CHR ''.'' \<and> frac \<noteq> [] \<and> list_all is_decimal frac))"

section \<open>Texts that \<^verbatim>\<open>parseInt\<close> reads no number from\<close>

text \<open>After leading white space and an optional sign, the text is over or goes on with a
  character that is not a decimal digit.\<close>

definition lacks_leading_digit :: "string \<Rightarrow> bool" where
  "lacks_leading_digit s =
     (case snd (strip_sign (strip_space s)) of [] \<Rightarrow> True | c # r \<Rightarrow> \<not> is_digit 10 c)"

section \<open>Example inputs\<close>

text \<open>A connect body with all three fields, a warehouse that accepts every call with empty
  results, and one that rejects every call.\<close>

definition example_body :: "(string \<times> jsval) list" where
  "example_body =
     [(''projectId'', JStr ''proj1''), (''clientEmail'', JStr ''svc@proj1.example''),
      (''privateKey'', JStr (''key'' @ [CHR 0x5C, CHR ''n''] @ ''line''))]"

definition example_client :: client where
  "example_client =
     \<lparr>cl_projectId = JStr ''proj1'', cl_client_email = JStr ''svc@proj1.example'',
      cl_private_key = ''key'' @ [CHR 0x0A] @ ''line''\<rparr>"

definition accepting :: warehouse where
  "accepting =
     \<lparr>getDatasets = (\<lambda>c. Inr []),
      getTables = (\<lambda>c d. Inr []),
      getMetadata = (\<lambda>c d t. Inr \<lparr>md_schema_fields = JUndefined, md_numRows = JStr ''0''\<rparr>),
      query = (\<lambda>c q. Inr [])\<rparr>"

definition rejecting :: warehouse where
  "rejecting =
     \<lparr>getDatasets = (\<lambda>c. Inl ''invalid_grant''),
      getTables = (\<lambda>c d. Inl ''invalid_grant''),
      getMetadata = (\<lambda>c d t. Inl ''invalid_grant''),
      query = (\<lambda>c q. Inl ''invalid_grant'')\<rparr>"

text \<open>A warehouse that answers every query with the given rows.\<close>

definition answering :: "row list \<Rightarrow> warehouse" where
  "answering rows =
     \<lparr>getDatasets = (\<lambda>c. Inr []),
      getTables = (\<lambda>c d. Inr []),
      getMetadata = (\<lambda>c d t. Inr \<lparr>md_schema_fields = JUndefined, md_numRows = JStr ''0''\<rparr>),
      query = (\<lambda>c q. Inr rows)\<rparr>"

definition example_row :: row where
  "example_row = [(''id'', JNum 7), (''name'', JStr ''ada''), (''left_at'', JNull)]"

text \<open>A connect body for another project, and a warehouse that accepts the clients of
  \<open>proj1\<close> only.\<close>

definition other_body :: "(string \<times> jsval) list" where
  "other_body =
     [(''projectId'', JStr ''proj2''), (''clientEmail'', JStr ''svc@proj2.example''),
      (''privateKey'', JStr ''key2'')]"

definition proj1_only :: warehouse where
  "proj1_only =
     \<lparr>getDatasets = (\<lambda>c. if cl_projectId c = JStr ''proj1'' then Inr [] else Inl ''invalid_grant''),
      getTables = (\<lambda>c d. Inr []),
      getMetadata = (\<lambda>c d t. Inr \<lparr>md_schema_fields = JUndefined, md_numRows = JStr ''0''\<rparr>),
      query = (\<lambda>c q. Inr [])\<rparr>"

section \<open>The store under requests handled one after the other\<close>

lemma connect_store_consistent:
  "consistent (store_after (connect wh st b)) \<or> store_after (connect wh st b) = st"
  by (auto simp: connect_def connect_begin_def connect_resume_def consistent_def empty_store_def
      Let_def split: jsval.splits sum.splits)

lemma handle_consistent: "consistent st \<Longrightarrow> consistent (store_after (handle wh st r))"
proof (cases r)
  case (Connect b)
  assume "consistent st"
  with connect_store_consistent [of wh st b] Connect show ?thesis by auto
next
  case (GetTableData d t q)
  then show "consistent st \<Longrightarrow> ?thesis"
    by (simp add: get_table_data_def split: page_phase.splits prod.splits)
qed (auto simp: status_def disconnect_def list_datasets_def list_tables_def run_query_def
      consistent_def empty_store_def Let_def split: option.splits sum.splits)

lemma run_consistent: "consistent st \<Longrightarrow> consistent (run st rs)"
proof (induction rs arbitrary: st)
  case Nil
  then show ?case by simp
next
  case (Cons p rs)
  obtain wh r where p: "p = (wh, r)" by (cases p)
  from Cons.prems have "consistent (store_after (handle wh st r))" by (rule handle_consistent)
  then show ?case using Cons.IH p by simp
qed

lemma guarded_not_connected:
  "bigQueryClient st = None \<Longrightarrow> requires_connection r \<Longrightarrow>
   handle wh st r = (not_connected, st, [])"
  by (cases r)
    (simp_all add: list_datasets_def list_tables_def get_table_data_def page_begin_def
      run_query_def)

lemma connect_example_accepted:
  "connect accepting st example_body =
     (ok_json (JObj [(''success'', JBool True), (''message'', JStr ''Connected to BigQuery'')]),
      \<lparr>bigQueryClient = Some example_client,
       bigQueryCredentials =
         Some \<lparr>cr_projectId = JStr ''proj1'', cr_clientEmail = JStr ''svc@proj1.example''\<rparr>\<rparr>,
      [GetDatasets example_client])"
  by (simp add: connect_def connect_begin_def connect_resume_def get_prop_def example_body_def
      example_client_def accepting_def Let_def)

lemma connect_begin_awaiting:
  "connect_begin st b = Awaiting st' c projectId clientEmail \<Longrightarrow>
   st' = st\<lparr>bigQueryClient := Some c\<rparr> \<and> projectId = get_prop b ''projectId'' \<and>
   clientEmail = get_prop b ''clientEmail''"
  by (auto simp: connect_begin_def Let_def split: if_splits jsval.splits)

lemma connect_begin_example:
  "connect_begin st example_body =
     Awaiting (st\<lparr>bigQueryClient := Some example_client\<rparr>) example_client (JStr ''proj1'')
       (JStr ''svc@proj1.example'')"
  by (simp add: connect_begin_def get_prop_def example_body_def example_client_def Let_def)

text \<open>
  C1, as it holds of the code. After any sequence of requests, each handled to completion
  before the next is taken up, and whatever the warehouse answered to each, the client handle
  and the credentials are both set or both \<^verbatim>\<open>null\<close>; and a request that requires a
  connection, handled in such a store, is answered "not connected" or finds both set.
  Disconnect clears both variables in one step. Connect does not: when it is suspended at
  its \<^verbatim>\<open>await\<close> it has assigned the new client handle and left the credentials as
  they were, and only when resumed does it assign the credentials, or clear both.
\<close>

theorem sequential_store_consistent:
  "consistent (run empty_store rs) \<and>
   (requires_connection r \<longrightarrow>
      response_of (handle wh (run empty_store rs) r) = not_connected \<or>
      (bigQueryClient (run empty_store rs) \<noteq> None \<and>
       bigQueryCredentials (run empty_store rs) \<noteq> None)) \<and>
   store_after (disconnect st) = empty_store \<and>
   (connect_begin st b = Awaiting st' c projectId clientEmail \<longrightarrow>
      st' = st\<lparr>bigQueryClient := Some c\<rparr>) \<and>
   snd (connect_resume st2 projectId clientEmail (Inr dss)) =
     st2\<lparr>bigQueryCredentials :=
           Some \<lparr>cr_projectId = projectId, cr_clientEmail = clientEmail\<rparr>\<rparr> \<and>
   snd (connect_resume st2 projectId clientEmail (Inl msg)) = empty_store"
proof -
  have c: "consistent (run empty_store rs)"
    by (rule run_consistent) (simp add: consistent_def empty_store_def)
  have g: "requires_connection r \<longrightarrow>
      response_of (handle wh (run empty_store rs) r) = not_connected \<or>
      (bigQueryClient (run empty_store rs) \<noteq> None \<and>
       bigQueryCredentials (run empty_store rs) \<noteq> None)"
  proof (cases "bigQueryClient (run empty_store rs)")
    case None
    then show ?thesis using guarded_not_connected [of "run empty_store rs" r wh] by simp
  next
    case (Some a)
    then show ?thesis using c by (simp add: consistent_def)
  qed
  have d: "store_after (disconnect st) = empty_store" by (simp add: disconnect_def)
  have b: "connect_begin st b = Awaiting st' c projectId clientEmail \<longrightarrow>
      st' = st\<lparr>bigQueryClient := Some c\<rparr>"
    using connect_begin_awaiting [of st b st' c projectId clientEmail] by blast
  have r: "snd (connect_resume st2 projectId clientEmail (Inr dss)) =
     st2\<lparr>bigQueryCredentials :=
           Some \<lparr>cr_projectId = projectId, cr_clientEmail = clientEmail\<rparr>\<rparr>"
    "snd (connect_resume st2 projectId clientEmail (Inl msg)) = empty_store"
    by (simp_all add: connect_resume_def)
  from c g d b r show ?thesis by blast
qed

theorem sequential_store_consistent_witness:
  "requires_connection ListDatasets \<and>
   consistent (run empty_store [(accepting, Connect example_body)]) \<and>
   bigQueryClient (run empty_store [(accepting, Connect example_body)]) = Some example_client \<and>
   consistent (run empty_store [(accepting, Connect example_body), (accepting, Disconnect)]) \<and>
   response_of
     (handle accepting
        (run empty_store [(accepting, Connect example_body), (accepting, Disconnect)])
        ListDatasets) = not_connected \<and>
   connect_begin empty_store example_body =
     Awaiting (empty_store\<lparr>bigQueryClient := Some example_client\<rparr>) example_client
       (JStr ''proj1'') (JStr ''svc@proj1.example'')"
  using sequential_store_consistent
      [where rs = "[(accepting, Connect example_body)]" and r = ListDatasets and wh = accepting]
    sequential_store_consistent
      [where rs = "[(accepting, Connect example_body), (accepting, Disconnect)]"
        and r = ListDatasets and wh = accepting and st = empty_store and b = example_body
        and st' = "empty_store\<lparr>bigQueryClient := Some example_client\<rparr>"
        and c = example_client and projectId = "JStr ''proj1''"
        and clientEmail = "JStr ''svc@proj1.example''"]
  by (simp add: connect_example_accepted connect_begin_example disconnect_def list_datasets_def
      empty_store_def)

text \<open>
  C1 as stated fails when requests overlap. A connect request on the empty store is suspended
  at its \<^verbatim>\<open>await\<close> with the client handle already assigned and the credentials still
  \<^verbatim>\<open>null\<close>: a status request that arrives then is answered connected with no project.
  And when a disconnect arrives during the \<^verbatim>\<open>await\<close> and the verification then
  succeeds, the credentials are set with no client handle, and status answers not connected
  with the project of the credentials.
\<close>

theorem overlapping_connect_counterexample:
  "fst (event_loop accepting start [Arrive (Connect example_body), Arrive Status]) =
     [ok_json (JObj [(''connected'', JBool True), (''projectId'', JNull)])] \<and>
   \<not> consistent (sv_store (snd (event_loop accepting start [Arrive (Connect example_body)]))) \<and>
   fst (event_loop accepting start
          [Arrive (Connect example_body), Arrive Disconnect, Resume 0, Arrive Status]) =
     [ok_json (JObj [(''success'', JBool True)]),
      ok_json (JObj [(''success'', JBool True), (''message'', JStr ''Connected to BigQuery'')]),
      ok_json (JObj [(''connected'', JBool False), (''projectId'', JStr ''proj1'')])]"
  by (simp add: arrive_def resume_def start_def connect_begin_def connect_resume_def get_prop_def
      example_body_def accepting_def status_def disconnect_def empty_store_def consistent_def
      js_or_def Let_def)

section \<open>Connect\<close>

lemma connect_falsy_field:
  "\<not> truthy (get_prop b ''projectId'') \<or> \<not> truthy (get_prop b ''clientEmail'') \<or>
   \<not> truthy (get_prop b ''privateKey'') \<Longrightarrow>
   connect wh st b = (error_json 400 ''Missing required credentials'', st, [])"
  by (auto simp: connect_def connect_begin_def Let_def)

lemma example_body_fields:
  "get_prop example_body ''projectId'' = JStr ''proj1'' \<and>
   get_prop example_body ''clientEmail'' = JStr ''svc@proj1.example'' \<and>
   get_prop example_body ''privateKey'' = JStr (''key'' @ [CHR 0x5C, CHR ''n''] @ ''line'')"
  by (simp add: get_prop_def example_body_def)

lemma connected_store:
  "store_after (connect accepting empty_store example_body) =
     \<lparr>bigQueryClient = Some example_client,
      bigQueryCredentials =
        Some \<lparr>cr_projectId = JStr ''proj1'', cr_clientEmail = JStr ''svc@proj1.example''\<rparr>\<rparr>"
  by (simp add: connect_example_accepted)

text \<open>
  C2. When all three fields are present, so that the verification call is made, and the call
  fails with a message, the handler answers 401 with \<^verbatim>\<open>Authentication failed: \<close> followed
  by that message and leaves the store empty, whatever it held before; status then reports
  not connected. The continuation clears the store from whatever state it is resumed in.
\<close>

theorem connect_verification_failure:
  assumes "truthy (get_prop b ''projectId'')" and "truthy (get_prop b ''clientEmail'')"
    and "get_prop b ''privateKey'' = JStr k" and "k \<noteq> []"
    and "getDatasets wh
           \<lparr>cl_projectId = get_prop b ''projectId'', cl_client_email = get_prop b ''clientEmail'',
            cl_private_key = formatKey k\<rparr> = Inl msg"
  shows "response_of (connect wh st b) = error_json 401 (''Authentication failed: '' @ msg) \<and>
         code (response_of (connect wh st b)) = 401 \<and>
         store_after (connect wh st b) = empty_store \<and>
         response_of (status (store_after (connect wh st b))) =
           ok_json (JObj [(''connected'', JBool False), (''projectId'', JNull)]) \<and>
         connect_resume st2 projectId clientEmail (Inl msg) =
           (error_json 401 (''Authentication failed: '' @ msg), empty_store)"
  using assms
  by (simp add: connect_def connect_begin_def connect_resume_def Let_def status_def
      empty_store_def js_or_def error_json_def)

text \<open>Connected to \<open>proj1\<close>, then a connect that the warehouse rejects.\<close>

theorem connect_verification_failure_witness:
  "response_of (status (store_after (connect accepting empty_store example_body))) =
     ok_json (JObj [(''connected'', JBool True), (''projectId'', JStr ''proj1'')]) \<and>
   response_of
     (connect rejecting (store_after (connect accepting empty_store example_body)) example_body) =
     error_json 401 ''Authentication failed: invalid_grant'' \<and>
   response_of
     (status
        (store_after
           (connect rejecting (store_after (connect accepting empty_store example_body))
              example_body))) =
     ok_json (JObj [(''connected'', JBool False), (''projectId'', JNull)])"
proof -
  let ?k = "''key'' @ [CHR 0x5C, CHR ''n''] @ ''line''"
  let ?st = "store_after (connect accepting empty_store example_body)"
  have before: "response_of (status ?st) =
      ok_json (JObj [(''connected'', JBool True), (''projectId'', JStr ''proj1'')])"
    by (simp add: connect_example_accepted status_def js_or_def)
  have f1: "truthy (get_prop example_body ''projectId'')"
    and f2: "truthy (get_prop example_body ''clientEmail'')"
    and f3: "get_prop example_body ''privateKey'' = JStr ?k"
    by (simp_all add: example_body_fields)
  have f4: "?k \<noteq> []" by simp
  have f5: "getDatasets rejecting
      \<lparr>cl_projectId = get_prop example_body ''projectId'',
       cl_client_email = get_prop example_body ''clientEmail'',
       cl_private_key = formatKey ?k\<rparr> = Inl ''invalid_grant''"
    by (simp add: rejecting_def)
  from connect_verification_failure [OF f1 f2 f3 f4 f5, of ?st empty_store JNull JNull]
  have failed: "response_of (connect rejecting ?st example_body) =
      error_json 401 (''Authentication failed: '' @ ''invalid_grant'')"
    and after: "response_of (status (store_after (connect rejecting ?st example_body))) =
      ok_json (JObj [(''connected'', JBool False), (''projectId'', JNull)])"
    by blast+
  from before failed after show ?thesis by simp
qed

text \<open>
  C3. A connect request whose body lacks \<^verbatim>\<open>projectId\<close>, \<^verbatim>\<open>clientEmail\<close> or
  \<^verbatim>\<open>privateKey\<close> is answered 400, the store is left as it was and no upstream call is
  made.
\<close>

theorem connect_missing_field:
  "get_prop b ''projectId'' = JUndefined \<or> get_prop b ''clientEmail'' = JUndefined \<or>
   get_prop b ''privateKey'' = JUndefined \<Longrightarrow>
   connect wh st b = (error_json 400 ''Missing required credentials'', st, []) \<and>
   code (response_of (connect wh st b)) = 400 \<and> store_after (connect wh st b) = st"
  using connect_falsy_field [of b wh st] by (auto simp: error_json_def)

text \<open>A body with no private key, on the connected store.\<close>

theorem connect_missing_field_witness:
  "get_prop [(''projectId'', JStr ''proj2''), (''clientEmail'', JStr ''a@b'')] ''privateKey'' =
     JUndefined \<and>
   connect rejecting (store_after (connect accepting empty_store example_body))
     [(''projectId'', JStr ''proj2''), (''clientEmail'', JStr ''a@b'')] =
     (error_json 400 ''Missing required credentials'',
      store_after (connect accepting empty_store example_body), [])"
  using connect_missing_field
    [of "[(''projectId'', JStr ''proj2''), (''clientEmail'', JStr ''a@b'')]" rejecting
      "store_after (connect accepting empty_store example_body)"]
  by (simp add: get_prop_def)

section \<open>Connect, then status\<close>

lemma connect_begin_truthy:
  "connect_begin st b = Awaiting st' c projectId clientEmail \<Longrightarrow> truthy projectId"
  by (auto simp: connect_begin_def Let_def split: if_splits jsval.splits)

lemma connect_begin_other:
  "connect_begin st other_body =
     Awaiting
       (st\<lparr>bigQueryClient :=
             Some \<lparr>cl_projectId = JStr ''proj2'', cl_client_email = JStr ''svc@proj2.example'',
                   cl_private_key = ''key2''\<rparr>\<rparr>)
       \<lparr>cl_projectId = JStr ''proj2'', cl_client_email = JStr ''svc@proj2.example'',
        cl_private_key = ''key2''\<rparr>
       (JStr ''proj2'') (JStr ''svc@proj2.example'')"
  by (simp add: connect_begin_def get_prop_def other_body_def Let_def)

text \<open>
  C7, as it holds of the code. When a connect request is handled with no other request
  handled during its \<^verbatim>\<open>await\<close>, and succeeds (it is answered 200), the status request
  that follows reports connected with the \<^verbatim>\<open>projectId\<close> of the connect body. In
  general, when the handler is resumed with a successful verification, it answers success,
  and the status taken then reports the \<^verbatim>\<open>projectId\<close> of the connect body, and
  connected exactly when the client handle is set in the store the handler is resumed in.
\<close>

theorem connect_success_status:
  "(code (response_of (connect wh st b)) = 200 \<longrightarrow>
      response_of (status (store_after (connect wh st b))) =
        ok_json (JObj [(''connected'', JBool True), (''projectId'', get_prop b ''projectId'')])) \<and>
   (connect_begin st b = Awaiting st' c projectId clientEmail \<longrightarrow>
      fst (connect_resume st2 projectId clientEmail (Inr dss)) =
        ok_json (JObj [(''success'', JBool True), (''message'', JStr ''Connected to BigQuery'')]) \<and>
      response_of (status (snd (connect_resume st2 projectId clientEmail (Inr dss)))) =
        ok_json (JObj [(''connected'', JBool (bigQueryClient st2 \<noteq> None)),
                       (''projectId'', projectId)]))"
proof -
  have atomic: "code (response_of (connect wh st b)) = 200 \<longrightarrow>
      response_of (status (store_after (connect wh st b))) =
        ok_json (JObj [(''connected'', JBool True), (''projectId'', get_prop b ''projectId'')])"
    by (auto simp: connect_def connect_begin_def connect_resume_def Let_def status_def js_or_def
        error_json_def ok_json_def split: jsval.splits sum.splits if_splits)
  have resumed: "fst (connect_resume st2 projectId clientEmail (Inr dss)) =
        ok_json (JObj [(''success'', JBool True), (''message'', JStr ''Connected to BigQuery'')]) \<and>
      response_of (status (snd (connect_resume st2 projectId clientEmail (Inr dss)))) =
        ok_json (JObj [(''connected'', JBool (bigQueryClient st2 \<noteq> None)),
                       (''projectId'', projectId)])"
    if "connect_begin st b = Awaiting st' c projectId clientEmail"
    using connect_begin_truthy [OF that]
    by (simp add: connect_resume_def status_def js_or_def)
  from atomic resumed show ?thesis by blast
qed

text \<open>A connect on the empty store; and its continuation resumed on a store that a
  disconnect has emptied meanwhile.\<close>

theorem connect_success_status_witness:
  "code (response_of (connect accepting empty_store example_body)) = 200 \<and>
   response_of (status (store_after (connect accepting empty_store example_body))) =
     ok_json (JObj [(''connected'', JBool True), (''projectId'', JStr ''proj1'')]) \<and>
   connect_begin empty_store example_body =
     Awaiting (empty_store\<lparr>bigQueryClient := Some example_client\<rparr>) example_client
       (JStr ''proj1'') (JStr ''svc@proj1.example'') \<and>
   response_of
     (status (snd (connect_resume empty_store (JStr ''proj1'') (JStr ''svc@proj1.example'') (Inr [])))) =
     ok_json (JObj [(''connected'', JBool False), (''projectId'', JStr ''proj1'')])"
proof -
  have h: "code (response_of (connect accepting empty_store example_body)) = 200"
    by (simp add: connect_example_accepted ok_json_def)
  have g: "connect_begin empty_store example_body =
     Awaiting (empty_store\<lparr>bigQueryClient := Some example_client\<rparr>) example_client
       (JStr ''proj1'') (JStr ''svc@proj1.example'')"
    by (rule connect_begin_example)
  have e: "bigQueryClient empty_store = None" by (simp add: empty_store_def)
  from connect_success_status
    [where wh = accepting and st = empty_store and b = example_body
      and st' = "empty_store\<lparr>bigQueryClient := Some example_client\<rparr>" and c = example_client
      and projectId = "JStr ''proj1''" and clientEmail = "JStr ''svc@proj1.example''"
      and ?st2.0 = empty_store and dss = "[]"] h g e
  show ?thesis by (simp add: example_body_fields)
qed

text \<open>
  C7 as stated fails when two connect requests overlap. The first, for \<open>proj1\<close>, is
  suspended at its \<^verbatim>\<open>await\<close>; the second, for \<open>proj2\<close>, arrives, fails its
  verification and clears both variables; the first is then resumed, succeeds and is
  answered 200. The status request that follows reports not connected.
\<close>

theorem overlapping_connects_counterexample:
  "fst (event_loop proj1_only start
          [Arrive (Connect example_body), Arrive (Connect other_body), Resume 1, Resume 0,
           Arrive Status]) =
     [error_json 401 ''Authentication failed: invalid_grant'',
      ok_json (JObj [(''success'', JBool True), (''message'', JStr ''Connected to BigQuery'')]),
      ok_json (JObj [(''connected'', JBool False), (''projectId'', JStr ''proj1'')])]"
  by (simp add: arrive_def resume_def start_def connect_begin_example connect_begin_other
      connect_resume_def proj1_only_def example_client_def status_def empty_store_def js_or_def
      Let_def)

section \<open>Disconnect\<close>

text \<open>
  C6. Disconnect always answers success; from every store, status afterwards reports not
  connected; and a second disconnect answers and leaves the store as the first did.
\<close>

theorem disconnect_idempotent:
  "response_of (disconnect st) = ok_json (JObj [(''success'', JBool True)]) \<and>
   response_of (status (store_after (disconnect st))) =
     ok_json (JObj [(''connected'', JBool False), (''projectId'', JNull)]) \<and>
   disconnect (store_after (disconnect st)) = disconnect st \<and>
   store_after (disconnect (store_after (disconnect st))) = store_after (disconnect st)"
  by (simp add: disconnect_def status_def empty_store_def js_or_def)

section \<open>The guarded operations\<close>

text \<open>
  C4. With no client handle in the store, list datasets, list tables, get table data and run
  query are answered 401 (\<^verbatim>\<open>Not connected to BigQuery\<close>), with no upstream call, whatever
  the warehouse would answer, and the store is left as it was.
\<close>

theorem disconnected_requests_rejected:
  "bigQueryClient st = None \<Longrightarrow> requires_connection r \<Longrightarrow>
   handle wh st r = (not_connected, st, []) \<and> code not_connected = 401"
  using guarded_not_connected [of st r wh] by (simp add: not_connected_def error_json_def)

theorem disconnected_requests_rejected_witness:
  "bigQueryClient empty_store = None \<and>
   requires_connection (RunQuery [(''query'', JStr ''SELECT 1'')]) \<and>
   handle rejecting empty_store (RunQuery [(''query'', JStr ''SELECT 1'')]) =
     (not_connected, empty_store, []) \<and>
   handle accepting empty_store (GetTableData ''d'' ''t'' []) = (not_connected, empty_store, [])"
  using disconnected_requests_rejected
      [of empty_store "RunQuery [(''query'', JStr ''SELECT 1'')]" rejecting]
    disconnected_requests_rejected [of empty_store "GetTableData ''d'' ''t'' []" accepting]
  by (simp add: empty_store_def)

text \<open>
  C8. While connected, a run-query request whose body has no \<^verbatim>\<open>query\<close> field, or an
  empty one, is answered 400 with no upstream call.
\<close>

theorem run_query_requires_text:
  "bigQueryClient st = Some c \<Longrightarrow>
   get_prop b ''query'' = JUndefined \<or> get_prop b ''query'' = JStr [] \<Longrightarrow>
   run_query wh st b = (error_json 400 ''Query is required'', st, []) \<and>
   code (response_of (run_query wh st b)) = 400 \<and> calls_of (run_query wh st b) = []"
  by (auto simp: run_query_def Let_def error_json_def)

theorem run_query_requires_text_witness:
  "run_query accepting (store_after (connect accepting empty_store example_body))
     [(''query'', JStr [])] =
     (error_json 400 ''Query is required'',
      store_after (connect accepting empty_store example_body), []) \<and>
   run_query accepting (store_after (connect accepting empty_store example_body)) [] =
     (error_json 400 ''Query is required'',
      store_after (connect accepting empty_store example_body), [])"
  using run_query_requires_text
      [of "store_after (connect accepting empty_store example_body)" example_client
        "[(''query'', JStr [])]" accepting]
    run_query_requires_text
      [of "store_after (connect accepting empty_store example_body)" example_client "[]" accepting]
  by (simp add: connect_example_accepted get_prop_def)

section \<open>Get table data: limit and offset\<close>

lemma zero_is_decimal: "is_digit 10 CHR ''0''"
  by (simp add: is_digit_def digit_value_def)

lemma lacks_leading_digit_NaN: "lacks_leading_digit s \<Longrightarrow> parseInt s = NaN"
proof -
  assume l: "lacks_leading_digit s"
  obtain sign s2 where ss: "strip_sign (strip_space s) = (sign, s2)"
    by (cases "strip_sign (strip_space s)")
  from l ss have s2: "s2 = [] \<or> (\<exists>c r. s2 = c # r \<and> \<not> is_digit 10 c)"
    by (auto simp: lacks_leading_digit_def split: list.splits)
  then have p: "strip_prefix s2 = (10, s2)"
    using zero_is_decimal by (auto simp: strip_prefix_def split: list.splits)
  from s2 have "takeWhile (is_digit 10) s2 = []" by auto
  with ss p show ?thesis by (simp add: parseInt_def)
qed

lemma undefined_lacks_leading_digit: "lacks_leading_digit (to_string JUndefined)"
  by (simp add: lacks_leading_digit_def strip_space.simps leading_space_def white_space_def
      strip_sign_def is_digit_def digit_value_def)

lemma parse_or_fallback:
  "v = JUndefined \<or> lacks_leading_digit (to_string v) \<Longrightarrow> parse_or v d = d"
  using lacks_leading_digit_NaN [of "to_string v"] undefined_lacks_leading_digit
  by (auto simp: parse_or_def)

lemma parse_or_zero: "parseInt (to_string v) = Finite 0 \<Longrightarrow> parse_or v d = d"
  by (simp add: parse_or_def)

lemma number_text_defaults:
  "number_text (Finite 100) = ''100'' \<and> number_text (Finite 0) = ''0'' \<and>
   number_text (Finite 12) = ''12''"
  by (simp add: number_text_def nat_text_def show_nat.simps shortest_decimal.simps to_double_def
      bit_length.simps digit_char_def Let_def)

lemma get_table_data_calls:
  "bigQueryClient st = Some c \<Longrightarrow> bigQueryCredentials st = Some cr \<Longrightarrow>
   getMetadata wh c d t = Inr md \<Longrightarrow>
   calls_of (get_table_data wh st d t q) =
     [GetMetadata c d t,
      Query c (JStr (page_sql (cr_projectId cr) d t (page_limit q) (page_offset q)))]"
  by (simp add: get_table_data_def page_begin_def page_resume_def Let_def split: sum.splits)

text \<open>
  \<^verbatim>\<open>parseInt\<close> on some texts: digits followed by letters, a hexadecimal prefix, white
  space outside ASCII (U+00A0), an integer that is not a double, an integer too long for
  decimal notation, a sign alone.
\<close>

lemma parseInt_examples:
  "parseInt ''0abc'' = Finite 0 \<and> parseInt ''0x1F'' = Finite 31 \<and>
   parseInt ([CHR 0xC2, CHR 0xA0] @ ''5'') = Finite 5 \<and>
   parseInt ''9007199254740993'' = Finite 9007199254740992 \<and>
   parseInt ''1000000000000000000000'' = Finite 1000000000000000000000 \<and>
   parseInt ''-'' = NaN"
  by (simp add: parseInt_def strip_space.simps leading_space_def white_space_def strip_sign_def
      strip_prefix_def is_digit_def digit_value_def digits_value_def to_double_def
      bit_length.simps Let_def)

lemma number_text_examples:
  "number_text (Finite 1000000000000000000000) = ''1e+21'' \<and>
   number_text (Finite 9007199254740992) = ''9007199254740992'' \<and>
   number_text (Finite (- 5)) = ''-5''"
  by (simp add: number_text_def nat_text_def show_nat.simps shortest_decimal.simps to_double_def
      bit_length.simps digit_char_def Let_def)

lemma parseInt_12abc: "parseInt ''12abc'' = Finite 12"
  by (simp add: parseInt_def strip_space.simps leading_space_def white_space_def strip_sign_def
      strip_prefix_def is_digit_def digit_value_def digits_value_def to_double_def
      bit_length.simps)

lemma parseInt_0: "parseInt ''0'' = Finite 0"
  by (simp add: parseInt_def strip_space.simps leading_space_def white_space_def strip_sign_def
      strip_prefix_def is_digit_def digit_value_def digits_value_def to_double_def
      bit_length.simps)

lemma abc_lacks_leading_digit: "lacks_leading_digit ''abc'' \<and> lacks_leading_digit ''x1''"
  by (simp add: lacks_leading_digit_def strip_space.simps leading_space_def white_space_def
      strip_sign_def is_digit_def digit_value_def)

text \<open>
  C5, as it holds of the code. When \<^verbatim>\<open>limit\<close> and \<^verbatim>\<open>offset\<close> are absent from the
  query string the handler uses limit 100 and offset 0: the query it sends ends in
  \<^verbatim>\<open>LIMIT 100 OFFSET 0\<close>. A parameter whose text, after leading white space and an
  optional sign, does not start with a decimal digit (\<^verbatim>\<open>limit=abc\<close>) falls back to its
  default, in the query sent. A parameter that is not numeric but starts with a digit need
  not fall back: \<^verbatim>\<open>12abc\<close> is not numeric and gives limit 12.
\<close>

theorem page_defaults:
  "(get_prop q ''limit'' = JUndefined \<or> lacks_leading_digit (to_string (get_prop q ''limit''))
      \<longrightarrow> page_limit q = Finite 100) \<and>
   (get_prop q ''offset'' = JUndefined \<or> lacks_leading_digit (to_string (get_prop q ''offset''))
      \<longrightarrow> page_offset q = Finite 0) \<and>
   ((get_prop q ''limit'' = JUndefined \<or> lacks_leading_digit (to_string (get_prop q ''limit''))) \<and>
    bigQueryClient st = Some c \<and> bigQueryCredentials st = Some cr \<and>
    getMetadata wh c d t = Inr md
      \<longrightarrow> calls_of (get_table_data wh st d t q) =
            [GetMetadata c d t,
             Query c (JStr (''SELECT * FROM `'' @ to_string (cr_projectId cr) @ ''.'' @ d @ ''.'' @ t
                            @ ''` LIMIT 100 OFFSET '' @ number_text (page_offset q)))]) \<and>
   ((get_prop q ''offset'' = JUndefined \<or> lacks_leading_digit (to_string (get_prop q ''offset''))) \<and>
    bigQueryClient st = Some c \<and> bigQueryCredentials st = Some cr \<and>
    getMetadata wh c d t = Inr md
      \<longrightarrow> calls_of (get_table_data wh st d t q) =
            [GetMetadata c d t,
             Query c (JStr (''SELECT * FROM `'' @ to_string (cr_projectId cr) @ ''.'' @ d @ ''.'' @ t
                            @ ''` LIMIT '' @ number_text (page_limit q) @ '' OFFSET 0''))]) \<and>
   ((get_prop q ''limit'' = JUndefined \<or> lacks_leading_digit (to_string (get_prop q ''limit''))) \<and>
    (get_prop q ''offset'' = JUndefined \<or> lacks_leading_digit (to_string (get_prop q ''offset''))) \<and>
    bigQueryClient st = Some c \<and> bigQueryCredentials st = Some cr \<and>
    getMetadata wh c d t = Inr md
      \<longrightarrow> calls_of (get_table_data wh st d t q) =
            [GetMetadata c d t,
             Query c (JStr (''SELECT * FROM `'' @ to_string (cr_projectId cr) @ ''.'' @ d @ ''.'' @ t
                            @ ''` LIMIT 100 OFFSET 0''))]) \<and>
   \<not> numeric_text ''12abc'' \<and>
   (get_prop q ''limit'' = JStr ''12abc'' \<longrightarrow> page_limit q = Finite 12)"
proof -
  let ?lim = "get_prop q ''limit'' = JUndefined \<or>
    lacks_leading_digit (to_string (get_prop q ''limit''))"
  let ?off = "get_prop q ''offset'' = JUndefined \<or>
    lacks_leading_digit (to_string (get_prop q ''offset''))"
  let ?ready = "bigQueryClient st = Some c \<and> bigQueryCredentials st = Some cr \<and>
    getMetadata wh c d t = Inr md"
  have l: "page_limit q = Finite 100" if ?lim
    using that parse_or_fallback [of "get_prop q ''limit''" "Finite 100"]
    by (simp add: page_limit_def)
  have off: "page_offset q = Finite 0" if ?off
    using that parse_or_fallback [of "get_prop q ''offset''" "Finite 0"]
    by (simp add: page_offset_def)
  have sent: "calls_of (get_table_data wh st d t q) =
      [GetMetadata c d t,
       Query c (JStr (page_sql (cr_projectId cr) d t (page_limit q) (page_offset q)))]"
    if ?ready
    using that get_table_data_calls [of st c cr wh d t md q] by simp
  have calls_l: "calls_of (get_table_data wh st d t q) =
            [GetMetadata c d t,
             Query c (JStr (''SELECT * FROM `'' @ to_string (cr_projectId cr) @ ''.'' @ d @ ''.'' @ t
                            @ ''` LIMIT 100 OFFSET '' @ number_text (page_offset q)))]"
    if ?lim ?ready
    using sent [OF that(2)] l [OF that(1)] by (simp add: page_sql_def number_text_defaults)
  have calls_o: "calls_of (get_table_data wh st d t q) =
            [GetMetadata c d t,
             Query c (JStr (''SELECT * FROM `'' @ to_string (cr_projectId cr) @ ''.'' @ d @ ''.'' @ t
                            @ ''` LIMIT '' @ number_text (page_limit q) @ '' OFFSET 0''))]"
    if ?off ?ready
    using sent [OF that(2)] off [OF that(1)] by (simp add: page_sql_def number_text_defaults)
  have calls: "calls_of (get_table_data wh st d t q) =
            [GetMetadata c d t,
             Query c (JStr (''SELECT * FROM `'' @ to_string (cr_projectId cr) @ ''.'' @ d @ ''.'' @ t
                            @ ''` LIMIT 100 OFFSET 0''))]"
    if ?lim ?off ?ready
    using sent [OF that(3)] l [OF that(1)] off [OF that(2)]
    by (simp add: page_sql_def number_text_defaults)
  have n: "\<not> numeric_text ''12abc''"
    by (simp add: numeric_text_def is_decimal_def is_digit_def digit_value_def)
  have p: "page_limit q = Finite 12" if "get_prop q ''limit'' = JStr ''12abc''"
    using that parseInt_12abc by (simp add: page_limit_def parse_or_def)
  from l off calls_l calls_o calls n p show ?thesis by blast
qed

text \<open>No parameters; \<^verbatim>\<open>limit=abc&offset=x1\<close>; and \<^verbatim>\<open>limit=12abc\<close>.\<close>

theorem page_defaults_witness:
  "page_limit [] = Finite 100 \<and> page_offset [] = Finite 0 \<and>
   page_limit [(''limit'', JStr ''abc''), (''offset'', JStr ''x1'')] = Finite 100 \<and>
   page_offset [(''limit'', JStr ''abc''), (''offset'', JStr ''x1'')] = Finite 0 \<and>
   calls_of (get_table_data accepting (store_after (connect accepting empty_store example_body))
               ''d'' ''t'' []) =
     [GetMetadata example_client ''d'' ''t'',
      Query example_client (JStr ''SELECT * FROM `proj1.d.t` LIMIT 100 OFFSET 0'')] \<and>
   calls_of (get_table_data accepting (store_after (connect accepting empty_store example_body))
               ''d'' ''t'' [(''limit'', JStr ''abc''), (''offset'', JStr ''x1'')]) =
     [GetMetadata example_client ''d'' ''t'',
      Query example_client (JStr ''SELECT * FROM `proj1.d.t` LIMIT 100 OFFSET 0'')] \<and>
   page_limit [(''limit'', JStr ''12abc'')] = Finite 12"
proof -
  let ?q = "[(''limit'', JStr ''abc''), (''offset'', JStr ''x1'')]"
  let ?p = "[(''limit'', JStr ''12abc'')]"
  let ?st = "store_after (connect accepting empty_store example_body)"
  let ?cr = "\<lparr>cr_projectId = JStr ''proj1'', cr_clientEmail = JStr ''svc@proj1.example''\<rparr>"
  let ?md = "\<lparr>md_schema_fields = JUndefined, md_numRows = JStr ''0''\<rparr>"
  have a: "get_prop [] ''limit'' = JUndefined" "get_prop [] ''offset'' = JUndefined"
    by (simp_all add: get_prop_def)
  have b: "lacks_leading_digit (to_string (get_prop ?q ''limit''))"
    "lacks_leading_digit (to_string (get_prop ?q ''offset''))"
    using abc_lacks_leading_digit by (simp_all add: get_prop_def)
  have c: "bigQueryClient ?st = Some example_client" "bigQueryCredentials ?st = Some ?cr"
    by (simp_all add: connected_store)
  have m: "getMetadata accepting example_client ''d'' ''t'' = Inr ?md"
    by (simp add: accepting_def)
  have g: "get_prop ?p ''limit'' = JStr ''12abc''" by (simp add: get_prop_def)
  from page_defaults
    [where q = "[]" and st = ?st and c = example_client and cr = ?cr and wh = accepting
      and d = "''d''" and t = "''t''" and md = ?md] a c m
  have 1: "page_limit [] = Finite 100" and 2: "page_offset [] = Finite 0"
    and 3: "calls_of (get_table_data accepting ?st ''d'' ''t'' []) =
     [GetMetadata example_client ''d'' ''t'',
      Query example_client
        (JStr (''SELECT * FROM `'' @ to_string (cr_projectId ?cr) @ ''.'' @ ''d'' @ ''.'' @ ''t''
               @ ''` LIMIT 100 OFFSET 0''))]"
    by blast+
  from page_defaults
    [where q = ?q and st = ?st and c = example_client and cr = ?cr and wh = accepting
      and d = "''d''" and t = "''t''" and md = ?md] b c m
  have 4: "page_limit ?q = Finite 100" and 5: "page_offset ?q = Finite 0"
    and 6: "calls_of (get_table_data accepting ?st ''d'' ''t'' ?q) =
     [GetMetadata example_client ''d'' ''t'',
      Query example_client
        (JStr (''SELECT * FROM `'' @ to_string (cr_projectId ?cr) @ ''.'' @ ''d'' @ ''.'' @ ''t''
               @ ''` LIMIT 100 OFFSET 0''))]"
    by blast+
  from page_defaults [where q = ?p] g have 7: "page_limit ?p = Finite 12" by blast
  from 1 2 3 4 5 6 7 show ?thesis by simp
qed

text \<open>
  C5 as stated fails: \<^verbatim>\<open>limit=12abc\<close> is not numeric, and the handler does not fall
  back to 100 but sends \<^verbatim>\<open>LIMIT 12\<close>.
\<close>

theorem page_limit_prefix_counterexample:
  "\<not> numeric_text ''12abc'' \<and>
   page_limit [(''limit'', JStr ''12abc'')] = Finite 12 \<and>
   calls_of (get_table_data accepting (store_after (connect accepting empty_store example_body))
               ''d'' ''t'' [(''limit'', JStr ''12abc'')]) =
     [GetMetadata example_client ''d'' ''t'',
      Query example_client (JStr ''SELECT * FROM `proj1.d.t` LIMIT 12 OFFSET 0'')]"
proof -
  let ?q = "[(''limit'', JStr ''12abc'')]"
  have n: "\<not> numeric_text ''12abc''"
    by (simp add: numeric_text_def is_decimal_def is_digit_def digit_value_def)
  have l: "page_limit ?q = Finite 12"
    using parseInt_12abc by (simp add: page_limit_def parse_or_def get_prop_def)
  have off: "page_offset ?q = Finite 0"
    using parse_or_fallback [of JUndefined "Finite 0"]
    by (simp add: page_offset_def get_prop_def)
  have c: "bigQueryClient (store_after (connect accepting empty_store example_body)) =
      Some example_client"
    and cr: "bigQueryCredentials (store_after (connect accepting empty_store example_body)) =
      Some \<lparr>cr_projectId = JStr ''proj1'', cr_clientEmail = JStr ''svc@proj1.example''\<rparr>"
    by (simp_all add: connected_store)
  have m: "getMetadata accepting example_client ''d'' ''t'' =
       Inr \<lparr>md_schema_fields = JUndefined, md_numRows = JStr ''0''\<rparr>"
    by (simp add: accepting_def)
  from get_table_data_calls [OF c cr m, of ?q] n l off show ?thesis
    by (simp add: page_sql_def number_text_defaults)
qed

text \<open>
  C10. When \<^verbatim>\<open>parseInt\<close> reads the \<^verbatim>\<open>limit\<close> parameter as zero, as it does
  \<^verbatim>\<open>limit=0\<close>, the handler uses the default limit 100, not zero: the query it sends
  carries \<^verbatim>\<open>LIMIT 100\<close>.
\<close>

theorem page_limit_zero:
  "(parseInt (to_string (get_prop q ''limit'')) = Finite 0 \<or> get_prop q ''limit'' = JStr ''0''
      \<longrightarrow> page_limit q = Finite 100) \<and>
   ((parseInt (to_string (get_prop q ''limit'')) = Finite 0 \<or> get_prop q ''limit'' = JStr ''0'') \<and>
    bigQueryClient st = Some c \<and> bigQueryCredentials st = Some cr \<and>
    getMetadata wh c d t = Inr md
      \<longrightarrow> page_begin st q = PageAwaiting c (Finite 100) (page_offset q) \<and>
          calls_of (get_table_data wh st d t q) =
            [GetMetadata c d t,
             Query c (JStr (''SELECT * FROM `'' @ to_string (cr_projectId cr) @ ''.'' @ d @ ''.'' @ t
                            @ ''` LIMIT 100 OFFSET '' @ number_text (page_offset q)))])"
proof -
  have l: "page_limit q = Finite 100"
    if "parseInt (to_string (get_prop q ''limit'')) = Finite 0 \<or> get_prop q ''limit'' = JStr ''0''"
    using that parseInt_0 parse_or_zero [of "get_prop q ''limit''" "Finite 100"]
    by (auto simp: page_limit_def)
  have calls: "page_begin st q = PageAwaiting c (Finite 100) (page_offset q) \<and>
          calls_of (get_table_data wh st d t q) =
            [GetMetadata c d t,
             Query c (JStr (''SELECT * FROM `'' @ to_string (cr_projectId cr) @ ''.'' @ d @ ''.'' @ t
                            @ ''` LIMIT 100 OFFSET '' @ number_text (page_offset q)))]"
    if "parseInt (to_string (get_prop q ''limit'')) = Finite 0 \<or> get_prop q ''limit'' = JStr ''0''"
      "bigQueryClient st = Some c" "bigQueryCredentials st = Some cr"
      "getMetadata wh c d t = Inr md"
    using get_table_data_calls [OF that(2) that(3) that(4), of q] l [OF that(1)] that(2)
    by (simp add: page_sql_def page_begin_def number_text_defaults)
  from l calls show ?thesis by blast
qed

text \<open>\<^verbatim>\<open>limit=0\<close> on the connected store.\<close>

theorem page_limit_zero_witness:
  "parseInt (to_string (get_prop [(''limit'', JStr ''0'')] ''limit'')) = Finite 0 \<and>
   page_limit [(''limit'', JStr ''0'')] = Finite 100 \<and>
   calls_of (get_table_data accepting (store_after (connect accepting empty_store example_body))
               ''d'' ''t'' [(''limit'', JStr ''0'')]) =
     [GetMetadata example_client ''d'' ''t'',
      Query example_client (JStr ''SELECT * FROM `proj1.d.t` LIMIT 100 OFFSET 0'')]"
proof -
  let ?q = "[(''limit'', JStr ''0'')]"
  let ?st = "store_after (connect accepting empty_store example_body)"
  let ?cr = "\<lparr>cr_projectId = JStr ''proj1'', cr_clientEmail = JStr ''svc@proj1.example''\<rparr>"
  let ?md = "\<lparr>md_schema_fields = JUndefined, md_numRows = JStr ''0''\<rparr>"
  have z: "parseInt (to_string (get_prop ?q ''limit'')) = Finite 0"
    using parseInt_0 by (simp add: get_prop_def)
  have off: "page_offset ?q = Finite 0"
    using parse_or_fallback [of JUndefined "Finite 0"]
    by (simp add: page_offset_def get_prop_def)
  have c: "bigQueryClient ?st = Some example_client" "bigQueryCredentials ?st = Some ?cr"
    by (simp_all add: connected_store)
  have m: "getMetadata accepting example_client ''d'' ''t'' = Inr ?md"
    by (simp add: accepting_def)
  from page_limit_zero
    [where q = ?q and st = ?st and c = example_client and cr = ?cr and wh = accepting
      and d = "''d''" and t = "''t''" and md = ?md] z c m
  have 1: "page_limit ?q = Finite 100"
    and 2: "calls_of (get_table_data accepting ?st ''d'' ''t'' ?q) =
            [GetMetadata example_client ''d'' ''t'',
             Query example_client
               (JStr (''SELECT * FROM `'' @ to_string (cr_projectId ?cr) @ ''.'' @ ''d'' @ ''.'' @ ''t''
                      @ ''` LIMIT 100 OFFSET '' @ number_text (page_offset ?q)))]"
    by blast+
  from z 1 2 off show ?thesis by (simp add: number_text_defaults)
qed

section \<open>Run query: the inferred schema\<close>

lemma schema_entries_distinct:
  "distinct (map fst r) \<Longrightarrow>
   map (schema_entry r) (map fst r) =
     map (\<lambda>(name, v). JObj [(''name'', JStr name), (''type'', JStr (typeof v))]) r"
  by (auto simp: schema_entry_def get_prop_def)

text \<open>
  C9. A run-query request that succeeds answers with the rows and a schema inferred from the
  first row: empty when there is no row, else one entry per key of the first row, in order,
  each with the key as \<^verbatim>\<open>name\<close> and the \<^verbatim>\<open>typeof\<close> of the first row's value for
  that key as \<^verbatim>\<open>type\<close> (the keys of an object are distinct).
\<close>

theorem query_schema_from_first_row:
  "bigQueryClient st = Some c \<Longrightarrow> truthy (get_prop b ''query'') \<Longrightarrow>
   query wh c (get_prop b ''query'') = Inr rows \<Longrightarrow>
   response_of (run_query wh st b) =
     ok_json (JObj [(''rows'', JArr (map JObj rows)), (''schema'', JArr (infer_schema rows))]) \<and>
   (rows = [] \<longrightarrow> infer_schema rows = []) \<and>
   (rows \<noteq> [] \<longrightarrow> length (infer_schema rows) = length (hd rows)) \<and>
   (rows \<noteq> [] \<and> distinct (map fst (hd rows)) \<longrightarrow>
      infer_schema rows =
        map (\<lambda>(name, v). JObj [(''name'', JStr name), (''type'', JStr (typeof v))]) (hd rows))"
  using schema_entries_distinct [of "hd rows"]
  by (cases rows) (simp_all add: run_query_def infer_schema_def Let_def)


text \<open>Two rows, the second with no column: the schema is that of the first.\<close>

theorem query_schema_from_first_row_witness:
  "response_of
     (run_query (answering [example_row, []])
        (store_after (connect accepting empty_store example_body))
        [(''query'', JStr ''SELECT 1'')]) =
     ok_json (JObj
       [(''rows'', JArr [JObj example_row, JObj []]),
        (''schema'', JArr
           [JObj [(''name'', JStr ''id''), (''type'', JStr ''number'')],
            JObj [(''name'', JStr ''name''), (''type'', JStr ''string'')],
            JObj [(''name'', JStr ''left_at''), (''type'', JStr ''object'')]])])"
proof -
  let ?st = "store_after (connect accepting empty_store example_body)"
  let ?b = "[(''query'', JStr ''SELECT 1'')]"
  let ?rows = "[example_row, []]"
  have c: "bigQueryClient ?st = Some example_client" by (simp add: connected_store)
  have t: "truthy (get_prop ?b ''query'')" by (simp add: get_prop_def)
  have q: "query (answering ?rows) example_client (get_prop ?b ''query'') = Inr ?rows"
    by (simp add: answering_def)
  have d: "?rows \<noteq> [] \<and> distinct (map fst (hd ?rows))" by (simp add: example_row_def)
  from query_schema_from_first_row [OF c t q] d
  have "response_of (run_query (answering ?rows) ?st ?b) =
     ok_json (JObj [(''rows'', JArr (map JObj ?rows)), (''schema'', JArr (infer_schema ?rows))])"
    and "infer_schema ?rows =
        map (\<lambda>(name, v). JObj [(''name'', JStr name), (''type'', JStr (typeof v))]) (hd ?rows)"
    by blast+
  then show ?thesis by (simp add: example_row_def)
qed

end
